theory Spec2Isabelle
  imports Main "HOL-Library.Word"
begin

unbundle bit_operations_syntax

section \<open>Data model of the spell and item request handlers (SpellHandler.cpp)\<close>

text \<open>
  The handlers of \<^verbatim>\<open>WorldSession\<close> read the session's player, the unit it moves, the
  spell, item and lock stores, and call into the casting engine, the inventory, the loot
  storage and the character database. Objects are records, enumerations are datatypes,
  a nullable pointer is an \<open>option\<close>, and a call into a collaborator whose body is not
  part of SpellHandler.cpp is an \<open>action\<close> of the handler's trace, in the order issued.
  Dereferencing a null pointer is the fault \<open>NullPointerDereference\<close>.
\<close>

type_synonym uint8 = "8 word"
type_synonym uint16 = "16 word"
type_synonym uint32 = "32 word"

text \<open>An object identity; \<open>ObjectGuid::Empty\<close> is 0, \<open>GetCounter\<close> is the instance counter.\<close>

type_synonym ObjectGuid = nat

definition ObjectGuid_Empty :: ObjectGuid where
  "ObjectGuid_Empty = 0"



type_synonym Difficulty = nat

definition DIFFICULTY_NONE :: Difficulty where
  "DIFFICULTY_NONE = 0"

datatype fault = NullPointerDereference

datatype TypeID = TYPEID_UNIT | TYPEID_PLAYER

datatype InventoryResult =
    EQUIP_ERR_OK
  | EQUIP_ERR_ITEM_NOT_FOUND
  | EQUIP_ERR_NOT_DURING_ARENA_MATCH
  | EQUIP_ERR_NOT_IN_COMBAT
  | EQUIP_ERR_PLAYER_DEAD
  | EQUIP_ERR_CLIENT_LOCKED_OUT
  | EQUIP_ERR_ITEM_LOCKED
  | EQUIP_ERR_OTHER nat

datatype SpellCastResult = SPELL_CAST_OK | SPELL_FAILED nat

datatype TriggerCastFlags = TRIGGERED_NONE | TRIGGERED_FULL_MASK

datatype CurrentSpellTypes =
    CURRENT_MELEE_SPELL
  | CURRENT_GENERIC_SPELL
  | CURRENT_CHANNELED_SPELL
  | CURRENT_AUTOREPEAT_SPELL

datatype AuraType =
    SPELL_AURA_PERIODIC_TRIGGER_SPELL_FROM_CLIENT
  | SPELL_AURA_PREVENT_RESURRECTION
  | SPELL_AURA_MOD_SPEED_NO_CONTROL
  | SPELL_AURA_MOD_SCALE
  | SPELL_AURA_MOUNTED
  | SPELL_AURA_OTHER nat

datatype SpellAttr =
    SPELL_ATTR0_NO_AURA_CANCEL
  | SPELL_ATTR7_BYPASS_NO_RESURRECT_AURA
  | SPELL_ATTR8_RAID_MARKER

datatype SpellEffectName = SPELL_EFFECT_CHANGE_RAID_MARKER | SPELL_EFFECT_OTHER nat

datatype ItemClass = ITEM_CLASS_CONSUMABLE | ITEM_CLASS_OTHER nat

datatype ItemFlags =
    ITEM_FLAG_HAS_LOOT
  | ITEM_FLAG_IGNORE_DEFAULT_ARENA_RESTRICTIONS
  | ITEM_FLAG_NOT_USEABLE_IN_ARENA

datatype ItemBondingType =
    BIND_NONE | BIND_ON_ACQUIRE | BIND_ON_EQUIP | BIND_ON_USE | BIND_QUEST

datatype InventoryType = INVTYPE_NON_EQUIP | INVTYPE_OTHER nat

datatype ItemUpdateState = ITEM_UNCHANGED | ITEM_CHANGED | ITEM_NEW | ITEM_REMOVED

datatype LootError = LOOT_ERROR_NO_LOOT

subsection \<open>Spell definitions, auras and active casts\<close>

text \<open>
  A spell definition is immutable and is compared by pointer in the source; the store
  holds one object per (id, difficulty), so pointer equality is equality of the records.
\<close>

record SpellInfo =
  SpellId :: uint32
  Attributes :: "SpellAttr set"
  Effects :: "SpellEffectName set"
  IsPassive :: bool
  IsChanneled :: bool
  IsPositive :: bool
  IsAutoRepeatRangedSpell :: bool
  CanBeUsedInCombat :: bool

definition HasAttribute :: "SpellInfo \<Rightarrow> SpellAttr \<Rightarrow> bool" where
  "HasAttribute spellInfo a = (a \<in> Attributes spellInfo)"

definition HasEffect :: "SpellInfo \<Rightarrow> SpellEffectName \<Rightarrow> bool" where
  "HasEffect spellInfo e = (e \<in> Effects spellInfo)"

record AuraApplication =
  aura_type :: AuraType
  aura_trigger_spell :: uint32
  aura_spell :: SpellInfo

record Spell =
  m_spellInfo :: SpellInfo
  m_targets_UnitTargetGUID :: ObjectGuid

subsection \<open>Units\<close>

text \<open>
  A \<open>Unit\<close> carries the fields the handlers read through a \<^verbatim>\<open>Unit*\<close>, those of its
  subclasses \<^verbatim>\<open>Creature\<close> (\<open>HasSpell\<close>, \<open>IsTotem\<close>) and \<^verbatim>\<open>Player\<close> (\<open>HasActiveSpell\<close>)
  included, since the source reaches them by a downcast guarded by \<open>GetTypeId\<close>.
\<close>

record Unit =
  GetGUID :: ObjectGuid
  GetTypeId :: TypeID
  GetDifficultyID :: Difficulty
  IsAlive :: bool
  IsTotem :: bool
  HasSpell :: "uint32 \<Rightarrow> bool"
  HasActiveSpell :: "uint32 \<Rightarrow> bool"
  m_appliedAuras :: "AuraApplication list"
  GetCurrentSpell :: "CurrentSpellTypes \<Rightarrow> Spell option"

definition HasAuraType :: "Unit \<Rightarrow> AuraType \<Rightarrow> bool" where
  "HasAuraType u t = (t \<in> set (map aura_type (m_appliedAuras u)))"

definition HasAuraTypeWithTriggerSpell :: "Unit \<Rightarrow> AuraType \<Rightarrow> uint32 \<Rightarrow> bool" where
  "HasAuraTypeWithTriggerSpell u t spellId =
     ((t, spellId) \<in> set (map (\<lambda>a. (aura_type a, aura_trigger_spell a)) (m_appliedAuras u)))"

text \<open>
  Modelled from the spec: \<^verbatim>\<open>Unit::RemoveAurasByType(type, check)\<close> is not part of
  SpellHandler.cpp. It "filters the actor's current aura set by a predicate ... and
  removes all matches": every aura of the type that satisfies the check is removed.
\<close>

definition RemoveAurasByType :: "Unit \<Rightarrow> AuraType \<Rightarrow> (AuraApplication \<Rightarrow> bool) \<Rightarrow> Unit" where
  "RemoveAurasByType u t check =
     u\<lparr>m_appliedAuras := filter (\<lambda>a. \<not> (aura_type a = t \<and> check a)) (m_appliedAuras u)\<rparr>"

subsection \<open>Items and loot\<close>

record ItemTemplate =
  GetId :: uint32
  GetClass :: ItemClass
  Flags :: "ItemFlags set"
  GetInventoryType :: InventoryType
  GetLockID :: uint32
  MinMoneyLoot :: uint32
  MaxMoneyLoot :: uint32
  MaxDurability :: uint32

definition HasFlag :: "ItemTemplate \<Rightarrow> ItemFlags \<Rightarrow> bool" where
  "HasFlag proto f = (f \<in> Flags proto)"

record Loot =
  gold :: uint32
  unlootedCount :: uint8
  items :: "uint32 list"

record Item =
  Item_GetGUID :: ObjectGuid
  GetEntry :: uint32
  GetBagSlot :: uint8
  GetSlot :: uint8
  ItemFieldFlags :: uint32
  GetGiftCreator :: ObjectGuid
  GetMaxDurability :: uint32
  GetState :: ItemUpdateState
  GetBonding :: ItemBondingType
  IsSoulBound :: bool
  IsEquipped :: bool
  GetEffects :: "uint32 list"
  m_lootGenerated :: bool
  m_loot :: "Loot option"



subsection \<open>The player and the session\<close>

text \<open>
  \<^verbatim>\<open>Player::GetUnitBeingMoved()\<close> returns a pointer that is null, the player itself,
  or another unit; the handlers compare it with \<^verbatim>\<open>_player\<close> by address.
\<close>

datatype mover_ref = MoverNull | MoverSelf | MoverOther Unit

record Player =
  as_Unit :: Unit
  m_unitMovedByMe :: mover_ref
  isPossessing :: bool
  InArena :: bool
  IsInCombat :: bool
  SelfResSpells :: "uint32 list"
  m_SummonSlot :: "nat \<Rightarrow> ObjectGuid"
  GetGuardianPet :: "ObjectGuid option"
  GetCharmed :: "ObjectGuid option"
  inventory :: "uint16 \<rightharpoonup> Item"

definition GetUnitBeingMoved :: "Player \<Rightarrow> Unit option" where
  "GetUnitBeingMoved player =
     (case m_unitMovedByMe player of
        MoverNull \<Rightarrow> None
      | MoverSelf \<Rightarrow> Some (as_Unit player)
      | MoverOther u \<Rightarrow> Some u)"


record WorldSession =
  GetPlayer :: "Player option"

subsection \<open>Requests\<close>

type_synonym MovementInfo = nat

record GameObject =
  GameObject_GetGUID :: ObjectGuid

record SpellCastTargets =
  GetUnitTarget :: "Unit option"
  GetUnitTargetGUID :: ObjectGuid
  GetGOTarget :: "GameObject option"

record SpellCastRequest =
  CastID :: ObjectGuid
  SpellID :: uint32
  Misc :: "uint32 \<times> uint32"
  Target :: nat
  MoveUpdate :: "MovementInfo option"

record UseItem =
  UseItem_PackSlot :: uint8
  UseItem_Slot :: uint8
  UseItem_CastItem :: ObjectGuid
  UseItem_Cast :: SpellCastRequest

record CastSpell =
  CastSpell_Cast :: SpellCastRequest

record OpenItem =
  OpenItem_Slot :: uint8
  OpenItem_PackSlot :: uint8

record CancelAura =
  CancelAura_SpellID :: uint32
  CancelAura_CasterGUID :: ObjectGuid

record PetCancelAura =
  PetCancelAura_PetGUID :: ObjectGuid
  PetCancelAura_SpellID :: uint32


subsection \<open>Collaborators\<close>

text \<open>
  The stores, accessors and methods the handlers call but SpellHandler.cpp does not
  define are parameters: one field each, named as in the source. \<open>RandomSource\<close> is the
  outcome of the random draws of one request (loot is rolled). \<open>SUMMON_SLOT_TOTEM\<close> and
  \<open>MAX_TOTEM_SLOT\<close> are the macros of the same names.
\<close>

type_synonym RandomSource = nat

record World =
  GetSpellInfo :: "uint32 \<Rightarrow> Difficulty \<Rightarrow> SpellInfo option"
  GetCreature :: "Player \<Rightarrow> ObjectGuid \<Rightarrow> Unit option"
  GetCreatureOrPetOrVehicle :: "Player \<Rightarrow> ObjectGuid \<Rightarrow> Unit option"
  SUMMON_SLOT_TOTEM :: nat
  MAX_TOTEM_SLOT :: nat
  IsOnVehicle :: "Player \<Rightarrow> Unit \<Rightarrow> bool"
  CheckVehicle :: "SpellInfo \<Rightarrow> Player \<Rightarrow> SpellCastResult"
  GetCastSpellInfo :: "Unit \<Rightarrow> SpellInfo \<Rightarrow> SpellInfo"
  GetSpellForLock :: "GameObject \<Rightarrow> Unit \<Rightarrow> SpellInfo option"
  GetAuraRankForLevel :: "SpellInfo \<Rightarrow> nat \<Rightarrow> SpellInfo option"
  GetLevelForTarget :: "Unit \<Rightarrow> Unit \<Rightarrow> nat"
  MakeSpellCastTargets :: "Unit \<Rightarrow> SpellCastRequest \<Rightarrow> SpellCastTargets"
  GetItemTemplate :: "uint32 \<Rightarrow> ItemTemplate option"
  GetUseableItemByPos :: "Player \<Rightarrow> uint8 \<Rightarrow> uint8 \<Rightarrow> Item option"
  CanUseItem :: "Player \<Rightarrow> Item \<Rightarrow> InventoryResult"
  OnItemUse :: "Player \<Rightarrow> Item \<Rightarrow> SpellCastTargets \<Rightarrow> bool"
  IsWrapped :: "Item \<Rightarrow> bool"
  IsLocked :: "Item \<Rightarrow> bool"
  sLockStore_LookupEntry :: "uint32 \<Rightarrow> nat option"
  generateMoneyLoot :: "RandomSource \<Rightarrow> Loot \<Rightarrow> uint32 \<Rightarrow> uint32 \<Rightarrow> Loot"
  FillLoot :: "RandomSource \<Rightarrow> Loot \<Rightarrow> uint32 \<Rightarrow> Player \<Rightarrow> bool \<Rightarrow> bool \<Rightarrow> Loot"

definition GetTemplate :: "World \<Rightarrow> Item \<Rightarrow> ItemTemplate option" where
  "GetTemplate w item = GetItemTemplate w (GetEntry item)"

subsection \<open>Actions: the calls a handler issues\<close>

datatype action =
    SendEquipError InventoryResult "ObjectGuid option"
  | TC_LOG_ERROR string
  | TC_LOG_INFO string
  | Item_SetState ObjectGuid ItemUpdateState
  | Item_SetBinding ObjectGuid bool
  | AddItemAppearance ObjectGuid
  | RemoveAurasWithInterruptFlags_ItemUse ObjectGuid
  | sScriptMgr_OnItemUse ObjectGuid
  | CastItemUseSpell ObjectGuid SpellCastTargets ObjectGuid
  | AsyncQuery_CHAR_SEL_CHARACTER_GIFT_BY_ITEM nat uint16 ObjectGuid
  | SendLoot Loot
  | SendLootError ObjectGuid ObjectGuid LootError
  | BeginTransaction
  | SaveInventoryAndGoldToDB
  | Append_CHAR_DEL_GIFT nat
  | CommitTransaction
  | HandleMovementOpcode_CMSG_MOVE_STOP MovementInfo
  | NewSpell ObjectGuid SpellInfo TriggerCastFlags
  | SendPacket_SpellPrepare ObjectGuid
  | Spell_prepare SpellCastTargets
  | InterruptSpell ObjectGuid CurrentSpellTypes
  | RemoveOwnedAura ObjectGuid uint32 ObjectGuid
  | SendPetActionFeedback_Dead ObjectGuid
  | UnSummon ObjectGuid
  | CastSpell ObjectGuid ObjectGuid uint32 Difficulty

section \<open>HandleTotemDestroyed\<close>


section \<open>HandleSelfResOpcode\<close>

text \<open>\<^verbatim>\<open>FindIndex\<close> of a dynamic update field: the first index of the value, or -1.\<close>

fun FindIndex :: "'a list \<Rightarrow> 'a \<Rightarrow> int" where
  "FindIndex [] v = -1"
| "FindIndex (x # xs) v =
     (if x = v then 0 else (let i = FindIndex xs v in if i < 0 then -1 else i + 1))"

text \<open>
  Modelled from the spec: \<^verbatim>\<open>Player::RemoveSelfResSpell\<close> is not part of
  SpellHandler.cpp. It "removes it from the granted list (one-shot)".
\<close>

definition RemoveSelfResSpell :: "Player \<Rightarrow> uint32 \<Rightarrow> Player" where
  "RemoveSelfResSpell player spellId =
     player\<lparr>SelfResSpells := remove1 spellId (SelfResSpells player)\<rparr>"

definition HandleSelfResOpcode ::
  "World \<Rightarrow> WorldSession \<Rightarrow> uint32 \<Rightarrow> fault + (WorldSession \<times> action list)" where
  "HandleSelfResOpcode w s selfRes_SpellID =
     (case GetPlayer s of
        None \<Rightarrow> Inl NullPointerDereference
      | Some player \<Rightarrow>
          if FindIndex (SelfResSpells player) selfRes_SpellID < 0 then Inr (s, [])
          else
            (case GetSpellInfo w selfRes_SpellID (GetDifficultyID (as_Unit player)) of
               None \<Rightarrow> Inr (s, [])
             | Some spellInfo \<Rightarrow>
                 if HasAuraType (as_Unit player) SPELL_AURA_PREVENT_RESURRECTION
                    \<and> \<not> HasAttribute spellInfo SPELL_ATTR7_BYPASS_NO_RESURRECT_AURA
                 then Inr (s, [])
                 else
                   Inr (s\<lparr>GetPlayer := Some (RemoveSelfResSpell player selfRes_SpellID)\<rparr>,
                        [CastSpell (GetGUID (as_Unit player)) (GetGUID (as_Unit player))
                           selfRes_SpellID (GetDifficultyID (as_Unit player))])))"

section \<open>Cancelling auras and channels\<close>

text \<open>The check shared by the cancel-aura-by-type handlers (the lambda of the source).\<close>

definition cancelable_aura :: "AuraApplication \<Rightarrow> bool" where
  "cancelable_aura aurApp =
     (let spellInfo = aura_spell aurApp
      in \<not> HasAttribute spellInfo SPELL_ATTR0_NO_AURA_CANCEL
         \<and> IsPositive spellInfo \<and> \<not> IsPassive spellInfo)"

definition HandleCancelModSpeedNoControlAuras ::
  "WorldSession \<Rightarrow> ObjectGuid \<Rightarrow> fault + WorldSession" where
  "HandleCancelModSpeedNoControlAuras s targetGUID =
     (case GetPlayer s of
        None \<Rightarrow> Inl NullPointerDereference
      | Some player \<Rightarrow>
          (case GetUnitBeingMoved player of
             None \<Rightarrow> Inr s
           | Some mover \<Rightarrow>
               if GetGUID mover \<noteq> targetGUID then Inr s
               else
                 Inr (s\<lparr>GetPlayer := Some (player\<lparr>as_Unit :=
                        RemoveAurasByType (as_Unit player) SPELL_AURA_MOD_SPEED_NO_CONTROL
                          cancelable_aura\<rparr>)\<rparr>)))"

definition HandleCancelAuraOpcode ::
  "World \<Rightarrow> WorldSession \<Rightarrow> CancelAura \<Rightarrow> fault + action list" where
  "HandleCancelAuraOpcode w s cancelAura =
     (case GetPlayer s of
        None \<Rightarrow> Inl NullPointerDereference
      | Some player \<Rightarrow>
          (case GetSpellInfo w (CancelAura_SpellID cancelAura)
                  (GetDifficultyID (as_Unit player)) of
             None \<Rightarrow> Inr []
           | Some spellInfo \<Rightarrow>
               if HasAttribute spellInfo SPELL_ATTR0_NO_AURA_CANCEL then Inr []
               else if IsChanneled spellInfo then
                 (case GetCurrentSpell (as_Unit player) CURRENT_CHANNELED_SPELL of
                    None \<Rightarrow> Inr []
                  | Some curSpell \<Rightarrow>
                      if SpellId (m_spellInfo curSpell) = CancelAura_SpellID cancelAura
                      then Inr [InterruptSpell (GetGUID (as_Unit player)) CURRENT_CHANNELED_SPELL]
                      else Inr [])
               else if \<not> IsPositive spellInfo \<or> IsPassive spellInfo then Inr []
               else
                 Inr [RemoveOwnedAura (GetGUID (as_Unit player)) (CancelAura_SpellID cancelAura)
                        (CancelAura_CasterGUID cancelAura)]))"

definition HandleCancelChanneling ::
  "World \<Rightarrow> WorldSession \<Rightarrow> uint32 \<Rightarrow> fault + action list" where
  "HandleCancelChanneling w s channelSpell =
     (case GetPlayer s of
        None \<Rightarrow> Inl NullPointerDereference
      | Some player \<Rightarrow>
          (case GetUnitBeingMoved player of
             None \<Rightarrow> Inl NullPointerDereference
           | Some mover \<Rightarrow>
               if m_unitMovedByMe player \<noteq> MoverSelf \<and> GetTypeId mover = TYPEID_PLAYER
               then Inr []
               else
                 (case GetSpellInfo w channelSpell (GetDifficultyID mover) of
                    None \<Rightarrow> Inr []
                  | Some spellInfo \<Rightarrow>
                      if HasAttribute spellInfo SPELL_ATTR0_NO_AURA_CANCEL then Inr []
                      else
                        (case GetCurrentSpell mover CURRENT_CHANNELED_SPELL of
                           None \<Rightarrow> Inr []
                         | Some spell \<Rightarrow>
                             if SpellId (m_spellInfo spell) \<noteq> SpellId spellInfo then Inr []
                             else Inr [InterruptSpell (GetGUID mover) CURRENT_CHANNELED_SPELL]))))"

definition HandlePetCancelAuraOpcode ::
  "World \<Rightarrow> WorldSession \<Rightarrow> PetCancelAura \<Rightarrow> fault + action list" where
  "HandlePetCancelAuraOpcode w s packet =
     (case GetSpellInfo w (PetCancelAura_SpellID packet) DIFFICULTY_NONE of
        Some spellInfo \<Rightarrow> Inr [TC_LOG_ERROR ''WORLD: unknown PET spell id'']
      | None \<Rightarrow>
          (case GetPlayer s of
             None \<Rightarrow> Inl NullPointerDereference
           | Some player \<Rightarrow>
               (case GetCreatureOrPetOrVehicle w player (PetCancelAura_PetGUID packet) of
                  None \<Rightarrow>
                    Inr [TC_LOG_ERROR ''HandlePetCancelAura: Attempt to cancel an aura for non-existant'']
                | Some pet \<Rightarrow>
                    if Some (GetGUID pet) \<noteq> GetGuardianPet player
                       \<and> Some (GetGUID pet) \<noteq> GetCharmed player
                    then Inr [TC_LOG_ERROR ''HandlePetCancelAura: is not a pet of player'']
                    else if \<not> IsAlive pet then Inr [SendPetActionFeedback_Dead (GetGUID pet)]
                    else
                      Inr [RemoveOwnedAura (GetGUID pet) (PetCancelAura_SpellID packet)
                             ObjectGuid_Empty])))"

section \<open>HandleCastSpellOpcode\<close>

text \<open>
  Lines 314-323: the caster. A creature mover that does not have the requested spell
  hands the cast to the player when the player is on that vehicle and the spell's vehicle
  check passes; \<open>None\<close> is the early return.
\<close>

definition vehicle_passenger_caster ::
  "World \<Rightarrow> Player \<Rightarrow> Unit \<Rightarrow> SpellInfo \<Rightarrow> Unit option" where
  "vehicle_passenger_caster w player mover spellInfo =
     (if GetTypeId mover = TYPEID_UNIT \<and> \<not> HasSpell mover (SpellId spellInfo) then
        if \<not> IsOnVehicle w player mover \<or> CheckVehicle w spellInfo player \<noteq> SPELL_CAST_OK
        then None
        else Some (as_Unit player)
      else Some mover)"

text \<open>
  Lines 325-349: the known-spell check; \<open>None\<close> is the early return, \<open>Some\<close> carries
  the trigger flag of the cast.
\<close>

definition known_spell_check ::
  "World \<Rightarrow> Unit \<Rightarrow> SpellInfo \<Rightarrow> SpellCastTargets \<Rightarrow> TriggerCastFlags option" where
  "known_spell_check w caster spellInfo targets =
     (if GetTypeId caster = TYPEID_PLAYER
         \<and> \<not> HasActiveSpell caster (SpellId spellInfo)
         \<and> \<not> HasEffect spellInfo SPELL_EFFECT_CHANGE_RAID_MARKER
         \<and> \<not> HasAttribute spellInfo SPELL_ATTR8_RAID_MARKER
      then
        let allow_lock =
              (case GetGOTarget targets of
                 None \<Rightarrow> False
               | Some go \<Rightarrow> GetSpellForLock w go caster = Some spellInfo);
            triggered =
              HasAuraTypeWithTriggerSpell caster SPELL_AURA_PERIODIC_TRIGGER_SPELL_FROM_CLIENT
                (SpellId spellInfo);
            allow = (allow_lock \<or> triggered);
            triggerFlag = (if triggered then TRIGGERED_FULL_MASK else TRIGGERED_NONE)
        in if \<not> allow then None else Some triggerFlag
      else Some TRIGGERED_NONE)"

text \<open>Lines 361-367: the client resends the auto-repeat cast that is already running.\<close>

definition autorepeat_resend :: "Unit \<Rightarrow> SpellInfo \<Rightarrow> SpellCastTargets \<Rightarrow> bool" where
  "autorepeat_resend caster spellInfo targets =
     (IsAutoRepeatRangedSpell spellInfo \<and>
      (case GetCurrentSpell caster CURRENT_AUTOREPEAT_SPELL of
         None \<Rightarrow> False
       | Some spell \<Rightarrow>
           m_spellInfo spell = spellInfo
           \<and> m_targets_UnitTargetGUID spell = GetUnitTargetGUID targets))"

text \<open>Lines 369-377: the rank of the spell for the level of the explicit unit target.\<close>

definition aura_rank_for_target ::
  "World \<Rightarrow> Unit \<Rightarrow> SpellCastTargets \<Rightarrow> SpellInfo \<Rightarrow> SpellInfo" where
  "aura_rank_for_target w caster targets spellInfo =
     (case GetUnitTarget targets of
        None \<Rightarrow> spellInfo
      | Some target \<Rightarrow>
          (case GetAuraRankForLevel w spellInfo (GetLevelForTarget w target caster) of
             None \<Rightarrow> spellInfo
           | Some actualSpellInfo \<Rightarrow> actualSpellInfo))"

definition HandleCastSpellOpcode ::
  "World \<Rightarrow> WorldSession \<Rightarrow> CastSpell \<Rightarrow> fault + action list" where
  "HandleCastSpellOpcode w s cast =
     (case GetPlayer s of
        None \<Rightarrow> Inl NullPointerDereference
      | Some player \<Rightarrow>
          (case GetUnitBeingMoved player of
             None \<Rightarrow> Inl NullPointerDereference
           | Some mover \<Rightarrow>
               if m_unitMovedByMe player \<noteq> MoverSelf \<and> GetTypeId mover = TYPEID_PLAYER
               then Inr []
               else
                 (case GetSpellInfo w (SpellID (CastSpell_Cast cast)) (GetDifficultyID mover) of
                    None \<Rightarrow> Inr [TC_LOG_ERROR ''WORLD: unknown spell id'']
                  | Some requested \<Rightarrow>
                      (case vehicle_passenger_caster w player mover requested of
                         None \<Rightarrow> Inr []
                       | Some caster \<Rightarrow>
                           let targets = MakeSpellCastTargets w caster (CastSpell_Cast cast) in
                           (case known_spell_check w caster requested targets of
                              None \<Rightarrow> Inr []
                            | Some triggerFlag \<Rightarrow>
                                let spellInfo = GetCastSpellInfo w caster requested in
                                if IsPassive spellInfo then Inr []
                                else if isPossessing player then Inr []
                                else if autorepeat_resend caster spellInfo targets then Inr []
                                else
                                  Inr ((case MoveUpdate (CastSpell_Cast cast) of
                                          None \<Rightarrow> []
                                        | Some moveUpdate \<Rightarrow>
                                            [HandleMovementOpcode_CMSG_MOVE_STOP moveUpdate])
                                       @ [NewSpell (GetGUID caster)
                                            (aura_rank_for_target w caster targets spellInfo)
                                            triggerFlag,
                                          SendPacket_SpellPrepare (CastID (CastSpell_Cast cast)),
                                          Spell_prepare targets]))))))"


section \<open>HandleUseItemOpcode\<close>

text \<open>
  Lines 103-113: the loop over the item's effects; \<open>True\<close> when the spell of some effect
  cannot be used in combat.
\<close>

fun effect_not_usable_in_combat :: "World \<Rightarrow> Difficulty \<Rightarrow> uint32 list \<Rightarrow> bool" where
  "effect_not_usable_in_combat w d [] = False"
| "effect_not_usable_in_combat w d (effect_SpellID # effects) =
     (case GetSpellInfo w effect_SpellID d of
        Some spellInfo \<Rightarrow>
          if \<not> CanBeUsedInCombat spellInfo then True
          else effect_not_usable_in_combat w d effects
      | None \<Rightarrow> effect_not_usable_in_combat w d effects)"

definition HandleUseItemOpcode ::
  "World \<Rightarrow> WorldSession \<Rightarrow> UseItem \<Rightarrow> fault + action list" where
  "HandleUseItemOpcode w s packet =
     (case GetPlayer s of
        None \<Rightarrow> Inl NullPointerDereference
      | Some user \<Rightarrow>
          if m_unitMovedByMe user \<noteq> MoverSelf then Inr []
          else
            (case GetUseableItemByPos w user (UseItem_PackSlot packet) (UseItem_Slot packet) of
               None \<Rightarrow> Inr [SendEquipError EQUIP_ERR_ITEM_NOT_FOUND None]
             | Some item \<Rightarrow>
                 if Item_GetGUID item \<noteq> UseItem_CastItem packet
                 then Inr [SendEquipError EQUIP_ERR_ITEM_NOT_FOUND None]
                 else
                   (case GetTemplate w item of
                      None \<Rightarrow> Inr [SendEquipError EQUIP_ERR_ITEM_NOT_FOUND (Some (Item_GetGUID item))]
                    | Some proto \<Rightarrow>
                        if GetInventoryType proto \<noteq> INVTYPE_NON_EQUIP \<and> \<not> IsEquipped item
                        then Inr [SendEquipError EQUIP_ERR_ITEM_NOT_FOUND (Some (Item_GetGUID item))]
                        else if CanUseItem w user item \<noteq> EQUIP_ERR_OK
                        then Inr [SendEquipError (CanUseItem w user item) (Some (Item_GetGUID item))]
                        else if GetClass proto = ITEM_CLASS_CONSUMABLE
                                \<and> \<not> HasFlag proto ITEM_FLAG_IGNORE_DEFAULT_ARENA_RESTRICTIONS
                                \<and> InArena user
                        then Inr [SendEquipError EQUIP_ERR_NOT_DURING_ARENA_MATCH
                                    (Some (Item_GetGUID item))]
                        else if HasFlag proto ITEM_FLAG_NOT_USEABLE_IN_ARENA \<and> InArena user
                        then Inr [SendEquipError EQUIP_ERR_NOT_DURING_ARENA_MATCH
                                    (Some (Item_GetGUID item))]
                        else if IsInCombat user
                                \<and> effect_not_usable_in_combat w (GetDifficultyID (as_Unit user))
                                    (GetEffects item)
                        then Inr [SendEquipError EQUIP_ERR_NOT_IN_COMBAT (Some (Item_GetGUID item))]
                        else
                          let targets = MakeSpellCastTargets w (as_Unit user) (UseItem_Cast packet)
                          in
                            Inr ((if (GetBonding item = BIND_ON_USE
                                      \<or> GetBonding item = BIND_ON_ACQUIRE
                                      \<or> GetBonding item = BIND_QUEST)
                                     \<and> \<not> IsSoulBound item
                                  then [Item_SetState (Item_GetGUID item) ITEM_CHANGED,
                                        Item_SetBinding (Item_GetGUID item) True,
                                        AddItemAppearance (Item_GetGUID item)]
                                  else [])
                                 @ [RemoveAurasWithInterruptFlags_ItemUse (GetGUID (as_Unit user)),
                                    sScriptMgr_OnItemUse (Item_GetGUID item)]
                                 @ (if \<not> OnItemUse w user item targets
                                    then [CastItemUseSpell (Item_GetGUID item) targets
                                            (CastID (UseItem_Cast packet))]
                                    else [])))))"

section \<open>HandleOpenItemOpcode and HandleOpenWrappedItemCallback\<close>













section \<open>Example objects\<close>

text \<open>Concrete spells, units, items and a world, at which the theorems below are instantiated.\<close>

definition example_spell :: "uint32 \<Rightarrow> SpellInfo" where
  "example_spell i =
     \<lparr>SpellId = i, Attributes = {}, Effects = {}, IsPassive = False, IsChanneled = False,
      IsPositive = True, IsAutoRepeatRangedSpell = False, CanBeUsedInCombat = True\<rparr>"

definition example_unit :: "ObjectGuid \<Rightarrow> TypeID \<Rightarrow> Unit" where
  "example_unit g t =
     \<lparr>GetGUID = g, GetTypeId = t, GetDifficultyID = 0, IsAlive = True, IsTotem = False,
      HasSpell = (\<lambda>_. False), HasActiveSpell = (\<lambda>_. False), m_appliedAuras = [],
      GetCurrentSpell = (\<lambda>_. None)\<rparr>"

definition example_player :: Player where
  "example_player =
     \<lparr>as_Unit = example_unit 1 TYPEID_PLAYER, m_unitMovedByMe = MoverSelf,
      isPossessing = False, InArena = False, IsInCombat = False, SelfResSpells = [],
      m_SummonSlot = (\<lambda>_. 0), GetGuardianPet = None, GetCharmed = None,
      inventory = Map.empty\<rparr>"

definition example_targets :: SpellCastTargets where
  "example_targets = \<lparr>GetUnitTarget = None, GetUnitTargetGUID = 0, GetGOTarget = None\<rparr>"

definition example_request :: "uint32 \<Rightarrow> SpellCastRequest" where
  "example_request i = \<lparr>CastID = 900, SpellID = i, Misc = (0, 0), Target = 0, MoveUpdate = None\<rparr>"

definition example_template :: ItemTemplate where
  "example_template =
     \<lparr>GetId = 10, GetClass = ITEM_CLASS_CONSUMABLE, Flags = {}, GetInventoryType = INVTYPE_NON_EQUIP,
      GetLockID = 0, MinMoneyLoot = 0, MaxMoneyLoot = 0, MaxDurability = 0\<rparr>"

definition example_item :: Item where
  "example_item =
     \<lparr>Item_GetGUID = 50, GetEntry = 10, GetBagSlot = 255, GetSlot = 23, ItemFieldFlags = 0,
      GetGiftCreator = 0, GetMaxDurability = 0, GetState = ITEM_UNCHANGED, GetBonding = BIND_NONE,
      IsSoulBound = False, IsEquipped = False, GetEffects = [], m_lootGenerated = False,
      m_loot = None\<rparr>"

definition example_world :: World where
  "example_world =
     \<lparr>GetSpellInfo = (\<lambda>_ _. None),
      GetCreature = (\<lambda>_ _. None),
      GetCreatureOrPetOrVehicle = (\<lambda>_ _. None),
      SUMMON_SLOT_TOTEM = 1,
      MAX_TOTEM_SLOT = 5,
      IsOnVehicle = (\<lambda>_ _. False),
      CheckVehicle = (\<lambda>_ _. SPELL_CAST_OK),
      GetCastSpellInfo = (\<lambda>_ spellInfo. spellInfo),
      GetSpellForLock = (\<lambda>_ _. None),
      GetAuraRankForLevel = (\<lambda>_ _. None),
      GetLevelForTarget = (\<lambda>_ _. 1),
      MakeSpellCastTargets = (\<lambda>_ _. example_targets),
      GetItemTemplate = (\<lambda>_. None),
      GetUseableItemByPos = (\<lambda>_ _ _. None),
      CanUseItem = (\<lambda>_ _. EQUIP_ERR_OK),
      OnItemUse = (\<lambda>_ _ _. False),
      IsWrapped = (\<lambda>_. False),
      IsLocked = (\<lambda>_. False),
      sLockStore_LookupEntry = (\<lambda>_. None),
      generateMoneyLoot = (\<lambda>rnd loot minAmount maxAmount. loot\<lparr>gold := of_nat rnd\<rparr>),
      FillLoot = (\<lambda>rnd loot entry player personal noEmptyError. loot)\<rparr>"

text \<open>A world whose spell store holds one definition, at every difficulty.\<close>

definition spell_world :: "SpellInfo \<Rightarrow> World" where
  "spell_world spellInfo =
     example_world\<lparr>GetSpellInfo := (\<lambda>i d. if i = SpellId spellInfo then Some spellInfo else None)\<rparr>"

text \<open>A unit that is channeling a spell, and a player built on a unit.\<close>

definition channeling_unit :: "SpellInfo \<Rightarrow> Unit" where
  "channeling_unit spellInfo =
     (example_unit 1 TYPEID_PLAYER)\<lparr>GetCurrentSpell :=
        (\<lambda>t. if t = CURRENT_CHANNELED_SPELL
             then Some \<lparr>m_spellInfo = spellInfo, m_targets_UnitTargetGUID = 0\<rparr> else None)\<rparr>"

definition player_of :: "Unit \<Rightarrow> Player" where
  "player_of u = example_player\<lparr>as_Unit := u\<rparr>"

text \<open>A channeled spell that carries the attribute forbidding its cancellation.\<close>

definition nocancel_channel :: SpellInfo where
  "nocancel_channel =
     (example_spell 5)\<lparr>Attributes := {SPELL_ATTR0_NO_AURA_CANCEL}, IsChanneled := True\<rparr>"

text \<open>A player that was granted the self-resurrection spell 20.\<close>

definition self_res_player :: Player where
  "self_res_player = example_player\<lparr>SelfResSpells := [20]\<rparr>"

text \<open>A speed-without-control aura of a given spell.\<close>

definition speed_aura :: "SpellInfo \<Rightarrow> AuraApplication" where
  "speed_aura spellInfo =
     \<lparr>aura_type = SPELL_AURA_MOD_SPEED_NO_CONTROL, aura_trigger_spell = 0,
      aura_spell = spellInfo\<rparr>"

text \<open>A world in which every useable position holds the consumable example item.\<close>

definition item_world :: World where
  "item_world =
     example_world\<lparr>GetUseableItemByPos := (\<lambda>_ _ _. Some example_item),
                   GetItemTemplate := (\<lambda>e. if e = 10 then Some example_template else None)\<rparr>"

definition arena_player :: Player where
  "arena_player = example_player\<lparr>InArena := True\<rparr>"

definition use_item_50 :: UseItem where
  "use_item_50 =
     \<lparr>UseItem_PackSlot = 255, UseItem_Slot = 23, UseItem_CastItem = 50,
      UseItem_Cast = example_request 0\<rparr>"

text \<open>A clientside periodic-trigger aura that grants a spell id, and a request for spell 9.\<close>

definition client_trigger_aura :: "uint32 \<Rightarrow> AuraApplication" where
  "client_trigger_aura i =
     \<lparr>aura_type = SPELL_AURA_PERIODIC_TRIGGER_SPELL_FROM_CLIENT, aura_trigger_spell = i,
      aura_spell = example_spell 100\<rparr>"

definition cast_9 :: CastSpell where
  "cast_9 = \<lparr>CastSpell_Cast = example_request 9\<rparr>"

text \<open>
  A wrapped gift (item flags 8 in this world) with identity 50 at position \<open>gift_pos\<close>
  of the player's inventory; entry 10 has the example template with durability 55.
\<close>

definition gift_world :: World where
  "gift_world =
     example_world\<lparr>IsWrapped := (\<lambda>item. ItemFieldFlags item = 8),
                   GetItemTemplate :=
                     (\<lambda>e. if e = 10 then Some (example_template\<lparr>MaxDurability := 55\<rparr>) else None)\<rparr>"

definition gift_item :: Item where
  "gift_item = example_item\<lparr>GetEntry := 5000, ItemFieldFlags := 8, GetGiftCreator := 7\<rparr>"

definition gift_pos :: uint16 where
  "gift_pos = 65303"

definition gift_player :: Player where
  "gift_player = example_player\<lparr>inventory := [gift_pos \<mapsto> gift_item]\<rparr>"

text \<open>
  A world with the spells 1 and 2 in which a player casts spell 2 in place of spell 1
  and a creature has no override; a creature vehicle (identity 2) without spells, moved
  by its passenger, who knows spell 1.
\<close>

definition override_world :: World where
  "override_world =
     example_world\<lparr>GetSpellInfo :=
        (\<lambda>i d. if i = 1 then Some (example_spell 1)
               else if i = 2 then Some (example_spell 2) else None),
      IsOnVehicle := (\<lambda>_ _. True),
      GetCastSpellInfo :=
        (\<lambda>u spellInfo. if GetTypeId u = TYPEID_PLAYER \<and> SpellId spellInfo = 1
                        then example_spell 2 else spellInfo)\<rparr>"

definition vehicle_unit :: Unit where
  "vehicle_unit = example_unit 2 TYPEID_UNIT"

definition passenger :: Player where
  "passenger =
     example_player\<lparr>as_Unit := (example_unit 1 TYPEID_PLAYER)\<lparr>HasActiveSpell := (\<lambda>i. i = 1)\<rparr>,
                    m_unitMovedByMe := MoverOther vehicle_unit\<rparr>"

definition cast_1 :: CastSpell where
  "cast_1 = \<lparr>CastSpell_Cast = example_request 1\<rparr>"

text \<open>
  A world in which entry 10 is a container with money loot between 0 and 9 (the draw is
  the amount) and no item loot; a player holding the example item at \<open>gift_pos\<close>.
\<close>

definition loot_world :: World where
  "loot_world =
     example_world\<lparr>GetItemTemplate :=
        (\<lambda>e. if e = 10
             then Some (example_template\<lparr>Flags := {ITEM_FLAG_HAS_LOOT}, MaxMoneyLoot := 9\<rparr>)
             else None)\<rparr>"

definition loot_player :: Player where
  "loot_player = example_player\<lparr>inventory := [gift_pos \<mapsto> example_item]\<rparr>"

definition open_gift :: OpenItem where
  "open_gift = \<lparr>OpenItem_Slot = 255, OpenItem_PackSlot = 23\<rparr>"

definition loot_7 :: Loot where
  "loot_7 = \<lparr>gold = 7, unlootedCount = 0, items = []\<rparr>"

lemmas example_defs = example_spell_def example_unit_def example_player_def example_targets_def
  example_request_def example_template_def example_item_def example_world_def
  spell_world_def channeling_unit_def player_of_def nocancel_channel_def self_res_player_def speed_aura_def
  item_world_def arena_player_def use_item_50_def client_trigger_aura_def cast_9_def
  gift_world_def gift_item_def gift_player_def gift_pos_def
  override_world_def vehicle_unit_def passenger_def cast_1_def loot_world_def loot_player_def open_gift_def loot_7_def

section \<open>Destroying a totem (C7)\<close>


lemma totem_slot_index_wraps: "unat ((255 :: uint8) + of_nat 1) = 0"
  by simp



section \<open>Cancelling a channeled cast (C5)\<close>

text \<open>
  C5, as amended. A cancel-channeling request interrupts the mover's channeled cast
  exactly when the mover is not another player, the claimed id resolves to a spell
  definition without the no-aura-cancel attribute, a channeled cast is active on the
  mover and its spell id equals the id of that definition. A cancel-aura request
  interrupts the player's channeled cast exactly when the claimed id resolves to a spell
  definition without the no-aura-cancel attribute that is channeled, a channeled cast is
  active on the player and its spell id equals the claimed id. So an interrupt needs an
  active channeled cast with the matching id, but a matching cast alone does not suffice.
\<close>

theorem cancel_channel_interrupts_iff:
  assumes "GetPlayer s = Some player"
  shows "(\<forall>acts g c. HandleCancelChanneling w s channelSpell = Inr acts \<longrightarrow>
            (InterruptSpell g c \<in> set acts) =
            (\<exists>mover spellInfo spell.
               GetUnitBeingMoved player = Some mover
               \<and> \<not> (m_unitMovedByMe player \<noteq> MoverSelf \<and> GetTypeId mover = TYPEID_PLAYER)
               \<and> GetSpellInfo w channelSpell (GetDifficultyID mover) = Some spellInfo
               \<and> \<not> HasAttribute spellInfo SPELL_ATTR0_NO_AURA_CANCEL
               \<and> GetCurrentSpell mover CURRENT_CHANNELED_SPELL = Some spell
               \<and> SpellId (m_spellInfo spell) = SpellId spellInfo
               \<and> g = GetGUID mover \<and> c = CURRENT_CHANNELED_SPELL))
       \<and> (\<forall>acts g c. HandleCancelAuraOpcode w s cancelAura = Inr acts \<longrightarrow>
            (InterruptSpell g c \<in> set acts) =
            (\<exists>spellInfo curSpell.
               GetSpellInfo w (CancelAura_SpellID cancelAura) (GetDifficultyID (as_Unit player))
                 = Some spellInfo
               \<and> \<not> HasAttribute spellInfo SPELL_ATTR0_NO_AURA_CANCEL
               \<and> IsChanneled spellInfo
               \<and> GetCurrentSpell (as_Unit player) CURRENT_CHANNELED_SPELL = Some curSpell
               \<and> SpellId (m_spellInfo curSpell) = CancelAura_SpellID cancelAura
               \<and> g = GetGUID (as_Unit player) \<and> c = CURRENT_CHANNELED_SPELL))"
  using assms
  by (auto simp: HandleCancelChanneling_def HandleCancelAuraOpcode_def
      split: option.splits if_splits)

text \<open>
  The theorem at a player channeling the cancelable channeled spell 5: both requests
  interrupt the cast.
\<close>

theorem cancel_channel_interrupts_iff_witness:
  "HandleCancelChanneling (spell_world ((example_spell 5)\<lparr>IsChanneled := True\<rparr>))
     \<lparr>GetPlayer = Some (player_of (channeling_unit ((example_spell 5)\<lparr>IsChanneled := True\<rparr>)))\<rparr> 5
     = Inr [InterruptSpell 1 CURRENT_CHANNELED_SPELL]
   \<and> InterruptSpell 1 CURRENT_CHANNELED_SPELL \<in> set [InterruptSpell 1 CURRENT_CHANNELED_SPELL]
   \<and> HandleCancelAuraOpcode (spell_world ((example_spell 5)\<lparr>IsChanneled := True\<rparr>))
     \<lparr>GetPlayer = Some (player_of (channeling_unit ((example_spell 5)\<lparr>IsChanneled := True\<rparr>)))\<rparr>
     \<lparr>CancelAura_SpellID = 5, CancelAura_CasterGUID = 1\<rparr>
     = Inr [InterruptSpell 1 CURRENT_CHANNELED_SPELL]"
  using cancel_channel_interrupts_iff
    [where s = "\<lparr>GetPlayer = Some (player_of (channeling_unit ((example_spell 5)\<lparr>IsChanneled := True\<rparr>)))\<rparr>"
       and player = "player_of (channeling_unit ((example_spell 5)\<lparr>IsChanneled := True\<rparr>))"
       and w = "spell_world ((example_spell 5)\<lparr>IsChanneled := True\<rparr>)"
       and channelSpell = 5
       and cancelAura = "\<lparr>CancelAura_SpellID = 5, CancelAura_CasterGUID = 1\<rparr>"]
  by (simp add: example_defs HandleCancelChanneling_def HandleCancelAuraOpcode_def
      GetUnitBeingMoved_def HasAttribute_def)

text \<open>
  The claim as stated fails: the player is channeling spell 5 and the request claims
  id 5, yet neither handler interrupts, because spell 5 has the no-aura-cancel attribute.
\<close>

theorem cancel_channel_iff_counterexample:
  "GetCurrentSpell (channeling_unit nocancel_channel) CURRENT_CHANNELED_SPELL
     = Some \<lparr>m_spellInfo = nocancel_channel, m_targets_UnitTargetGUID = 0\<rparr>
   \<and> SpellId nocancel_channel = 5
   \<and> HandleCancelChanneling (spell_world nocancel_channel)
        \<lparr>GetPlayer = Some (player_of (channeling_unit nocancel_channel))\<rparr> 5 = Inr []
   \<and> HandleCancelAuraOpcode (spell_world nocancel_channel)
        \<lparr>GetPlayer = Some (player_of (channeling_unit nocancel_channel))\<rparr>
        \<lparr>CancelAura_SpellID = 5, CancelAura_CasterGUID = 1\<rparr> = Inr []"
  by (simp add: example_defs HandleCancelChanneling_def HandleCancelAuraOpcode_def
      GetUnitBeingMoved_def HasAttribute_def)

section \<open>Self-resurrection (C6)\<close>

lemma FindIndex_negative: "(FindIndex xs v < 0) = (v \<notin> set xs)"
  by (induction xs) (auto simp: Let_def)

text \<open>
  C6, as amended. A spell id that is not in the granted self-resurrection list is
  ignored, and so is a granted id that resolves to no spell definition. For a granted id
  that resolves to a definition, nothing is cast and the list is unchanged when a
  resurrection-prevention aura is active and the spell lacks the bypass attribute;
  otherwise the spell is cast on the player and the id is removed from the list.
\<close>

theorem HandleSelfResOpcode_one_shot:
  assumes "GetPlayer s = Some player"
  shows "(spellID \<notin> set (SelfResSpells player) \<longrightarrow> HandleSelfResOpcode w s spellID = Inr (s, []))
       \<and> (spellID \<in> set (SelfResSpells player)
          \<and> GetSpellInfo w spellID (GetDifficultyID (as_Unit player)) = None
          \<longrightarrow> HandleSelfResOpcode w s spellID = Inr (s, []))
       \<and> (\<forall>spellInfo. spellID \<in> set (SelfResSpells player)
          \<and> GetSpellInfo w spellID (GetDifficultyID (as_Unit player)) = Some spellInfo
          \<longrightarrow> HandleSelfResOpcode w s spellID =
               (if HasAuraType (as_Unit player) SPELL_AURA_PREVENT_RESURRECTION
                   \<and> \<not> HasAttribute spellInfo SPELL_ATTR7_BYPASS_NO_RESURRECT_AURA
                then Inr (s, [])
                else Inr (s\<lparr>GetPlayer := Some (player\<lparr>SelfResSpells :=
                              remove1 spellID (SelfResSpells player)\<rparr>)\<rparr>,
                          [CastSpell (GetGUID (as_Unit player)) (GetGUID (as_Unit player)) spellID
                             (GetDifficultyID (as_Unit player))])))"
  using assms
  by (auto simp: HandleSelfResOpcode_def RemoveSelfResSpell_def FindIndex_negative
      split: option.splits)

text \<open>
  The theorem at a player granted spell 20, which has a definition, with no prevention
  aura: the spell is cast and the list is empty afterwards.
\<close>

theorem HandleSelfResOpcode_one_shot_witness:
  "HandleSelfResOpcode (spell_world (example_spell 20)) \<lparr>GetPlayer = Some self_res_player\<rparr> 20
     = Inr (\<lparr>GetPlayer = Some (self_res_player\<lparr>SelfResSpells := []\<rparr>)\<rparr>, [CastSpell 1 1 20 0])"
  using HandleSelfResOpcode_one_shot
    [where s = "\<lparr>GetPlayer = Some self_res_player\<rparr>" and player = self_res_player
       and w = "spell_world (example_spell 20)" and spellID = 20]
  by (simp add: example_defs HasAuraType_def)

text \<open>
  The claim as stated fails: spell 20 is in the granted list and no prevention aura is
  active, but the id has no spell definition; nothing is cast and the list is unchanged.
\<close>

theorem HandleSelfResOpcode_otherwise_counterexample:
  "20 \<in> set (SelfResSpells self_res_player)
   \<and> \<not> HasAuraType (as_Unit self_res_player) SPELL_AURA_PREVENT_RESURRECTION
   \<and> HandleSelfResOpcode example_world \<lparr>GetPlayer = Some self_res_player\<rparr> 20
       = Inr (\<lparr>GetPlayer = Some self_res_player\<rparr>, [])"
  by (simp add: example_defs HandleSelfResOpcode_def HasAuraType_def)

section \<open>Cancelling a pet's aura (C9)\<close>

text \<open>
  C9. When the spell id of a pet cancel-aura request resolves to a spell definition, the
  handler logs "unknown PET spell id" and does nothing else; an aura removal is issued
  only when the id resolves to no definition (and then, when the pet is found, is the
  player's guardian or charm and is alive, it is issued). The check is the reverse of the
  one in the cancel-aura and self-resurrect handlers, which do nothing for an id without
  a definition.
\<close>

theorem HandlePetCancelAuraOpcode_inverted_check:
  "(GetSpellInfo w (PetCancelAura_SpellID p) DIFFICULTY_NONE \<noteq> None
      \<longrightarrow> HandlePetCancelAuraOpcode w s p = Inr [TC_LOG_ERROR ''WORLD: unknown PET spell id''])
   \<and> (HandlePetCancelAuraOpcode w s p = Inr acts \<and> RemoveOwnedAura g i c \<in> set acts
      \<longrightarrow> GetSpellInfo w (PetCancelAura_SpellID p) DIFFICULTY_NONE = None)
   \<and> (GetSpellInfo w (PetCancelAura_SpellID p) DIFFICULTY_NONE = None
       \<and> GetPlayer s = Some player
       \<and> GetCreatureOrPetOrVehicle w player (PetCancelAura_PetGUID p) = Some pet
       \<and> (Some (GetGUID pet) = GetGuardianPet player \<or> Some (GetGUID pet) = GetCharmed player)
       \<and> IsAlive pet
      \<longrightarrow> HandlePetCancelAuraOpcode w s p =
            Inr [RemoveOwnedAura (GetGUID pet) (PetCancelAura_SpellID p) ObjectGuid_Empty])
   \<and> (GetPlayer s = Some player
       \<and> GetSpellInfo w (CancelAura_SpellID ca) (GetDifficultyID (as_Unit player)) = None
      \<longrightarrow> HandleCancelAuraOpcode w s ca = Inr [])
   \<and> (GetPlayer s = Some player
       \<and> GetSpellInfo w selfRes (GetDifficultyID (as_Unit player)) = None
      \<longrightarrow> HandleSelfResOpcode w s selfRes = Inr (s, []))"
  by (auto simp: HandlePetCancelAuraOpcode_def HandleCancelAuraOpcode_def
      HandleSelfResOpcode_def split: option.splits if_splits)

text \<open>
  The theorem at a request for spell 7, which has a definition: the handler only logs.
\<close>

theorem HandlePetCancelAuraOpcode_inverted_check_witness:
  "GetSpellInfo (spell_world (example_spell 7)) 7 DIFFICULTY_NONE = Some (example_spell 7)
   \<and> HandlePetCancelAuraOpcode (spell_world (example_spell 7)) \<lparr>GetPlayer = Some example_player\<rparr>
       \<lparr>PetCancelAura_PetGUID = 30, PetCancelAura_SpellID = 7\<rparr>
     = Inr [TC_LOG_ERROR ''WORLD: unknown PET spell id'']"
  using HandlePetCancelAuraOpcode_inverted_check
    [where w = "spell_world (example_spell 7)" and s = "\<lparr>GetPlayer = Some example_player\<rparr>"
       and p = "\<lparr>PetCancelAura_PetGUID = 30, PetCancelAura_SpellID = 7\<rparr>"]
  by (simp add: example_defs)

section \<open>Cancelling speed-without-control auras (C10)\<close>

text \<open>
  C10. When the session has no mover, or the mover's identity differs from the
  request's target identity, the session (the player's auras included) is unchanged.
  When they are equal, the player keeps exactly the auras that are not cancelable
  speed-without-control auras. So the player's auras change only when the identities
  are equal.
\<close>

theorem HandleCancelModSpeedNoControlAuras_mover_identity:
  assumes "GetPlayer s = Some player"
  shows "(GetUnitBeingMoved player = None
            \<or> (\<exists>mover. GetUnitBeingMoved player = Some mover \<and> GetGUID mover \<noteq> targetGUID)
          \<longrightarrow> HandleCancelModSpeedNoControlAuras s targetGUID = Inr s)
       \<and> (\<forall>mover. GetUnitBeingMoved player = Some mover \<and> GetGUID mover = targetGUID
          \<longrightarrow> HandleCancelModSpeedNoControlAuras s targetGUID =
               Inr (s\<lparr>GetPlayer := Some (player\<lparr>as_Unit := (as_Unit player)\<lparr>m_appliedAuras :=
                      filter (\<lambda>a. \<not> (aura_type a = SPELL_AURA_MOD_SPEED_NO_CONTROL \<and> cancelable_aura a))
                        (m_appliedAuras (as_Unit player))\<rparr>\<rparr>)\<rparr>))
       \<and> (\<forall>s' player'. HandleCancelModSpeedNoControlAuras s targetGUID = Inr s'
            \<and> GetPlayer s' = Some player'
            \<and> m_appliedAuras (as_Unit player') \<noteq> m_appliedAuras (as_Unit player)
          \<longrightarrow> (\<exists>mover. GetUnitBeingMoved player = Some mover \<and> GetGUID mover = targetGUID))"
  using assms
  by (auto simp: HandleCancelModSpeedNoControlAuras_def RemoveAurasByType_def
      split: option.splits if_splits)

text \<open>
  The theorem at a player that moves itself (identity 1) and has a cancelable and a
  non-cancelable speed aura: a request for identity 2 changes nothing, a request for
  identity 1 removes the cancelable aura only.
\<close>

theorem HandleCancelModSpeedNoControlAuras_mover_identity_witness:
  "HandleCancelModSpeedNoControlAuras
     \<lparr>GetPlayer = Some (player_of ((example_unit 1 TYPEID_PLAYER)\<lparr>m_appliedAuras :=
        [speed_aura (example_spell 3), speed_aura nocancel_channel]\<rparr>))\<rparr> 2
     = Inr \<lparr>GetPlayer = Some (player_of ((example_unit 1 TYPEID_PLAYER)\<lparr>m_appliedAuras :=
        [speed_aura (example_spell 3), speed_aura nocancel_channel]\<rparr>))\<rparr>
   \<and> HandleCancelModSpeedNoControlAuras
     \<lparr>GetPlayer = Some (player_of ((example_unit 1 TYPEID_PLAYER)\<lparr>m_appliedAuras :=
        [speed_aura (example_spell 3), speed_aura nocancel_channel]\<rparr>))\<rparr> 1
     = Inr \<lparr>GetPlayer = Some (player_of ((example_unit 1 TYPEID_PLAYER)\<lparr>m_appliedAuras :=
        [speed_aura nocancel_channel]\<rparr>))\<rparr>"
  using HandleCancelModSpeedNoControlAuras_mover_identity
    [where s = "\<lparr>GetPlayer = Some (player_of ((example_unit 1 TYPEID_PLAYER)\<lparr>m_appliedAuras :=
        [speed_aura (example_spell 3), speed_aura nocancel_channel]\<rparr>))\<rparr>"
       and player = "player_of ((example_unit 1 TYPEID_PLAYER)\<lparr>m_appliedAuras :=
        [speed_aura (example_spell 3), speed_aura nocancel_channel]\<rparr>)"
       and targetGUID = 2]
    HandleCancelModSpeedNoControlAuras_mover_identity
    [where s = "\<lparr>GetPlayer = Some (player_of ((example_unit 1 TYPEID_PLAYER)\<lparr>m_appliedAuras :=
        [speed_aura (example_spell 3), speed_aura nocancel_channel]\<rparr>))\<rparr>"
       and player = "player_of ((example_unit 1 TYPEID_PLAYER)\<lparr>m_appliedAuras :=
        [speed_aura (example_spell 3), speed_aura nocancel_channel]\<rparr>)"
       and targetGUID = 1]
  by (simp add: example_defs GetUnitBeingMoved_def cancelable_aura_def HasAttribute_def)

section \<open>Using a consumable in an arena (C8)\<close>

text \<open>
  C8, as amended. Take a use-item request whose item is found, has a template of class
  consumable without the arena-exemption flag, with the user in an arena. Whatever the
  handler answers, it is nothing or a single equip error: no binding change, no aura
  removal, no script call and no cast. When the request also passes the earlier checks
  (the user moves itself, the item's identity is the claimed one, the item is equipped if
  its type requires it, and the usability check returns OK), the answer is exactly the
  not-during-arena-match error for that item.
\<close>

theorem HandleUseItemOpcode_arena_consumable:
  assumes "GetPlayer s = Some user"
    and "GetUseableItemByPos w user (UseItem_PackSlot p) (UseItem_Slot p) = Some item"
    and "GetTemplate w item = Some proto"
    and "GetClass proto = ITEM_CLASS_CONSUMABLE"
    and "\<not> HasFlag proto ITEM_FLAG_IGNORE_DEFAULT_ARENA_RESTRICTIONS"
    and "InArena user"
  shows "(m_unitMovedByMe user = MoverSelf
          \<and> Item_GetGUID item = UseItem_CastItem p
          \<and> (GetInventoryType proto = INVTYPE_NON_EQUIP \<or> IsEquipped item)
          \<and> CanUseItem w user item = EQUIP_ERR_OK
          \<longrightarrow> HandleUseItemOpcode w s p =
               Inr [SendEquipError EQUIP_ERR_NOT_DURING_ARENA_MATCH (Some (Item_GetGUID item))])
       \<and> (HandleUseItemOpcode w s p = Inr []
          \<or> (\<exists>msg it. HandleUseItemOpcode w s p = Inr [SendEquipError msg it]))"
  using assms
  by (auto simp: HandleUseItemOpcode_def)

text \<open>
  The theorem at a player in an arena that moves itself and uses the consumable item 50.
\<close>

theorem HandleUseItemOpcode_arena_consumable_witness:
  "HandleUseItemOpcode item_world \<lparr>GetPlayer = Some arena_player\<rparr> use_item_50
     = Inr [SendEquipError EQUIP_ERR_NOT_DURING_ARENA_MATCH (Some 50)]"
  using HandleUseItemOpcode_arena_consumable
    [where s = "\<lparr>GetPlayer = Some arena_player\<rparr>" and user = arena_player and w = item_world
       and p = use_item_50 and item = example_item and proto = example_template]
  by (simp add: example_defs GetTemplate_def HasFlag_def)

text \<open>
  The claim as stated fails: the item is consumable, lacks the exemption flag and the
  user is in an arena, but a user that moves another unit gets no answer at all, and a
  user whose usability check fails gets that check's error code.
\<close>

theorem HandleUseItemOpcode_arena_counterexample:
  "GetUseableItemByPos item_world
      (arena_player\<lparr>m_unitMovedByMe := MoverOther (example_unit 2 TYPEID_UNIT)\<rparr>)
      (UseItem_PackSlot use_item_50) (UseItem_Slot use_item_50) = Some example_item
   \<and> GetTemplate item_world example_item = Some example_template
   \<and> GetClass example_template = ITEM_CLASS_CONSUMABLE
   \<and> \<not> HasFlag example_template ITEM_FLAG_IGNORE_DEFAULT_ARENA_RESTRICTIONS
   \<and> InArena (arena_player\<lparr>m_unitMovedByMe := MoverOther (example_unit 2 TYPEID_UNIT)\<rparr>)
   \<and> HandleUseItemOpcode item_world
        \<lparr>GetPlayer = Some (arena_player\<lparr>m_unitMovedByMe := MoverOther (example_unit 2 TYPEID_UNIT)\<rparr>)\<rparr>
        use_item_50 = Inr []
   \<and> HandleUseItemOpcode (item_world\<lparr>CanUseItem := (\<lambda>_ _. EQUIP_ERR_OTHER 3)\<rparr>)
        \<lparr>GetPlayer = Some arena_player\<rparr> use_item_50
        = Inr [SendEquipError (EQUIP_ERR_OTHER 3) (Some 50)]"
  by (simp add: example_defs GetTemplate_def HasFlag_def HandleUseItemOpcode_def)

section \<open>The known-spell check of a cast request (C4)\<close>

lemma known_spell_check_passes:
  "GetTypeId caster = TYPEID_PLAYER \<Longrightarrow>
      (known_spell_check w caster spellInfo targets \<noteq> None) =
      (HasActiveSpell caster (SpellId spellInfo)
       \<or> HasEffect spellInfo SPELL_EFFECT_CHANGE_RAID_MARKER
       \<or> HasAttribute spellInfo SPELL_ATTR8_RAID_MARKER
       \<or> HasAuraTypeWithTriggerSpell caster SPELL_AURA_PERIODIC_TRIGGER_SPELL_FROM_CLIENT
            (SpellId spellInfo)
       \<or> (\<exists>go. GetGOTarget targets = Some go \<and> GetSpellForLock w go caster = Some spellInfo))"
  by (auto simp: known_spell_check_def Let_def split: option.splits)

lemma known_spell_check_full_mask:
  "(known_spell_check w caster spellInfo targets = Some TRIGGERED_FULL_MASK) =
        (GetTypeId caster = TYPEID_PLAYER
         \<and> \<not> HasActiveSpell caster (SpellId spellInfo)
         \<and> \<not> HasEffect spellInfo SPELL_EFFECT_CHANGE_RAID_MARKER
         \<and> \<not> HasAttribute spellInfo SPELL_ATTR8_RAID_MARKER
         \<and> HasAuraTypeWithTriggerSpell caster SPELL_AURA_PERIODIC_TRIGGER_SPELL_FROM_CLIENT
              (SpellId spellInfo))"
  by (auto simp: known_spell_check_def Let_def split: option.splits)

text \<open>Every cast the handler creates went through all the stages of the handler.\<close>

lemma HandleCastSpellOpcode_NewSpell:
  assumes "GetPlayer s = Some player" and "HandleCastSpellOpcode w s cast = Inr acts"
    and "NewSpell g si flag \<in> set acts"
  shows "\<exists>mover requested c.
           GetUnitBeingMoved player = Some mover
           \<and> GetSpellInfo w (SpellID (CastSpell_Cast cast)) (GetDifficultyID mover) = Some requested
           \<and> vehicle_passenger_caster w player mover requested = Some c
           \<and> g = GetGUID c
           \<and> known_spell_check w c requested (MakeSpellCastTargets w c (CastSpell_Cast cast))
               = Some flag
           \<and> \<not> IsPassive (GetCastSpellInfo w c requested)
           \<and> \<not> isPossessing player
           \<and> \<not> autorepeat_resend c (GetCastSpellInfo w c requested)
                  (MakeSpellCastTargets w c (CastSpell_Cast cast))
           \<and> si = aura_rank_for_target w c (MakeSpellCastTargets w c (CastSpell_Cast cast))
                  (GetCastSpellInfo w c requested)"
  using assms
  by (auto simp: HandleCastSpellOpcode_def Let_def split: option.splits if_splits)

text \<open>
  C4, as amended. For a player caster the known-spell check lets the request pass
  exactly when the caster knows the spell, or the spell is a raid-marker spell (by effect
  or by attribute), or the caster has a clientside periodic-trigger aura that grants the
  spell id, or the game-object target's unlock spell is the requested spell definition.
  The cast is marked fully triggered exactly when the caster is a player that does not
  know the spell, the spell is not a raid-marker spell, and the aura is present. Whenever
  the handler creates a cast, the check passed with the flag of the cast, the spell
  after override is not passive, and the player possesses no unit.
\<close>

theorem known_spell_check_gate:
  "(GetTypeId caster = TYPEID_PLAYER \<longrightarrow>
      (known_spell_check w caster spellInfo targets \<noteq> None) =
      (HasActiveSpell caster (SpellId spellInfo)
       \<or> HasEffect spellInfo SPELL_EFFECT_CHANGE_RAID_MARKER
       \<or> HasAttribute spellInfo SPELL_ATTR8_RAID_MARKER
       \<or> HasAuraTypeWithTriggerSpell caster SPELL_AURA_PERIODIC_TRIGGER_SPELL_FROM_CLIENT
            (SpellId spellInfo)
       \<or> (\<exists>go. GetGOTarget targets = Some go \<and> GetSpellForLock w go caster = Some spellInfo)))
   \<and> ((known_spell_check w caster spellInfo targets = Some TRIGGERED_FULL_MASK) =
        (GetTypeId caster = TYPEID_PLAYER
         \<and> \<not> HasActiveSpell caster (SpellId spellInfo)
         \<and> \<not> HasEffect spellInfo SPELL_EFFECT_CHANGE_RAID_MARKER
         \<and> \<not> HasAttribute spellInfo SPELL_ATTR8_RAID_MARKER
         \<and> HasAuraTypeWithTriggerSpell caster SPELL_AURA_PERIODIC_TRIGGER_SPELL_FROM_CLIENT
              (SpellId spellInfo)))
   \<and> (GetPlayer s = Some player \<and> HandleCastSpellOpcode w s cast = Inr acts
       \<and> NewSpell g si flag \<in> set acts \<longrightarrow>
        (\<exists>mover requested c.
           GetUnitBeingMoved player = Some mover
           \<and> GetSpellInfo w (SpellID (CastSpell_Cast cast)) (GetDifficultyID mover) = Some requested
           \<and> vehicle_passenger_caster w player mover requested = Some c
           \<and> g = GetGUID c
           \<and> known_spell_check w c requested (MakeSpellCastTargets w c (CastSpell_Cast cast))
               = Some flag
           \<and> \<not> IsPassive (GetCastSpellInfo w c requested)
           \<and> \<not> isPossessing player))"
proof (intro conjI impI)
  assume "GetTypeId caster = TYPEID_PLAYER"
  then show "(known_spell_check w caster spellInfo targets \<noteq> None) =
      (HasActiveSpell caster (SpellId spellInfo)
       \<or> HasEffect spellInfo SPELL_EFFECT_CHANGE_RAID_MARKER
       \<or> HasAttribute spellInfo SPELL_ATTR8_RAID_MARKER
       \<or> HasAuraTypeWithTriggerSpell caster SPELL_AURA_PERIODIC_TRIGGER_SPELL_FROM_CLIENT
            (SpellId spellInfo)
       \<or> (\<exists>go. GetGOTarget targets = Some go \<and> GetSpellForLock w go caster = Some spellInfo))"
    by (rule known_spell_check_passes)
next
  show "(known_spell_check w caster spellInfo targets = Some TRIGGERED_FULL_MASK) =
        (GetTypeId caster = TYPEID_PLAYER
         \<and> \<not> HasActiveSpell caster (SpellId spellInfo)
         \<and> \<not> HasEffect spellInfo SPELL_EFFECT_CHANGE_RAID_MARKER
         \<and> \<not> HasAttribute spellInfo SPELL_ATTR8_RAID_MARKER
         \<and> HasAuraTypeWithTriggerSpell caster SPELL_AURA_PERIODIC_TRIGGER_SPELL_FROM_CLIENT
              (SpellId spellInfo))"
    by (rule known_spell_check_full_mask)
next
  assume a: "GetPlayer s = Some player \<and> HandleCastSpellOpcode w s cast = Inr acts
       \<and> NewSpell g si flag \<in> set acts"
  have "\<exists>mover requested c.
           GetUnitBeingMoved player = Some mover
           \<and> GetSpellInfo w (SpellID (CastSpell_Cast cast)) (GetDifficultyID mover) = Some requested
           \<and> vehicle_passenger_caster w player mover requested = Some c
           \<and> g = GetGUID c
           \<and> known_spell_check w c requested (MakeSpellCastTargets w c (CastSpell_Cast cast))
               = Some flag
           \<and> \<not> IsPassive (GetCastSpellInfo w c requested)
           \<and> \<not> isPossessing player
           \<and> \<not> autorepeat_resend c (GetCastSpellInfo w c requested)
                  (MakeSpellCastTargets w c (CastSpell_Cast cast))
           \<and> si = aura_rank_for_target w c (MakeSpellCastTargets w c (CastSpell_Cast cast))
                  (GetCastSpellInfo w c requested)"
    by (rule HandleCastSpellOpcode_NewSpell [OF conjunct1 [OF a] conjunct1 [OF conjunct2 [OF a]]
          conjunct2 [OF conjunct2 [OF a]]])
  then show "\<exists>mover requested c.
           GetUnitBeingMoved player = Some mover
           \<and> GetSpellInfo w (SpellID (CastSpell_Cast cast)) (GetDifficultyID mover) = Some requested
           \<and> vehicle_passenger_caster w player mover requested = Some c
           \<and> g = GetGUID c
           \<and> known_spell_check w c requested (MakeSpellCastTargets w c (CastSpell_Cast cast))
               = Some flag
           \<and> \<not> IsPassive (GetCastSpellInfo w c requested)
           \<and> \<not> isPossessing player"
    by blast
qed

text \<open>
  The theorem at a player that does not know spell 9 and has the aura granting it: the
  check passes with the full trigger mask, and the handler creates that cast.
\<close>

theorem known_spell_check_gate_witness:
  "known_spell_check (spell_world (example_spell 9))
     ((example_unit 1 TYPEID_PLAYER)\<lparr>m_appliedAuras := [client_trigger_aura 9]\<rparr>)
     (example_spell 9) example_targets = Some TRIGGERED_FULL_MASK
   \<and> HandleCastSpellOpcode (spell_world (example_spell 9))
       \<lparr>GetPlayer = Some (player_of
          ((example_unit 1 TYPEID_PLAYER)\<lparr>m_appliedAuras := [client_trigger_aura 9]\<rparr>))\<rparr>
       cast_9
     = Inr [NewSpell 1 (example_spell 9) TRIGGERED_FULL_MASK, SendPacket_SpellPrepare 900,
            Spell_prepare example_targets]"
proof -
  have check: "known_spell_check (spell_world (example_spell 9))
     ((example_unit 1 TYPEID_PLAYER)\<lparr>m_appliedAuras := [client_trigger_aura 9]\<rparr>)
     (example_spell 9) example_targets = Some TRIGGERED_FULL_MASK"
    using known_spell_check_gate
      [where caster = "(example_unit 1 TYPEID_PLAYER)\<lparr>m_appliedAuras := [client_trigger_aura 9]\<rparr>"
         and w = "spell_world (example_spell 9)" and spellInfo = "example_spell 9"
         and targets = example_targets, THEN conjunct2, THEN conjunct1]
    by (simp add: example_defs HasEffect_def HasAttribute_def HasAuraTypeWithTriggerSpell_def)
  have cast: "HandleCastSpellOpcode (spell_world (example_spell 9))
       \<lparr>GetPlayer = Some (player_of
          ((example_unit 1 TYPEID_PLAYER)\<lparr>m_appliedAuras := [client_trigger_aura 9]\<rparr>))\<rparr>
       cast_9
     = Inr [NewSpell 1 (example_spell 9) TRIGGERED_FULL_MASK, SendPacket_SpellPrepare 900,
            Spell_prepare example_targets]"
    by (simp add: example_defs HandleCastSpellOpcode_def GetUnitBeingMoved_def
        vehicle_passenger_caster_def known_spell_check_def HasEffect_def HasAttribute_def
        HasAuraTypeWithTriggerSpell_def autorepeat_resend_def aura_rank_for_target_def)
  show ?thesis using check cast by simp
qed

text \<open>
  The claim as stated fails: the caster has the clientside periodic-trigger aura granting
  spell 9, but also knows spell 9; the cast is created with no trigger flag.
\<close>

theorem known_spell_check_trigger_counterexample:
  "HasAuraTypeWithTriggerSpell
      ((example_unit 1 TYPEID_PLAYER)\<lparr>HasActiveSpell := (\<lambda>i. i = 9),
         m_appliedAuras := [client_trigger_aura 9]\<rparr>)
      SPELL_AURA_PERIODIC_TRIGGER_SPELL_FROM_CLIENT 9
   \<and> HandleCastSpellOpcode (spell_world (example_spell 9))
       \<lparr>GetPlayer = Some (player_of
          ((example_unit 1 TYPEID_PLAYER)\<lparr>HasActiveSpell := (\<lambda>i. i = 9),
             m_appliedAuras := [client_trigger_aura 9]\<rparr>))\<rparr>
       cast_9
     = Inr [NewSpell 1 (example_spell 9) TRIGGERED_NONE, SendPacket_SpellPrepare 900,
            Spell_prepare example_targets]"
  by (simp add: example_defs HandleCastSpellOpcode_def GetUnitBeingMoved_def
      vehicle_passenger_caster_def known_spell_check_def HasEffect_def HasAttribute_def
      HasAuraTypeWithTriggerSpell_def autorepeat_resend_def aura_rank_for_target_def)

section \<open>The deferred opening of a wrapped item (C2)\<close>



section \<open>The order of spell resolution in a cast request (C1)\<close>




section \<open>Opening a lootable container (C3)\<close>







end
